theory Spec2Isabelle
  imports Complex_Main "HOL-Library.Char_ord" "HOL-Library.List_Lexorder" "HOL-Library.Log_Nat"
begin

section \<open>Data model\<close>

text \<open>
  The \<^verbatim>\<open>Appointment\<close> interface of \<^verbatim>\<open>DoctorDashboard.tsx\<close> and
  \<^verbatim>\<open>PatientDashboard\<close>. The \<^verbatim>\<open>status\<close> field is a union of five string
  literals; optional fields are \<open>option\<close> values; \<^verbatim>\<open>createdAt\<close> is an abstract
  timestamp. The field \<^verbatim>\<open>id\<close> is named \<open>aid\<close> and \<^verbatim>\<open>note\<close> is named
  \<open>patientNote\<close>, since the source names are reserved in Isabelle.
\<close>

datatype Status = Pending | Confirmed | InProgress | Completed | Cancelled

record Prescription =
  medicine :: string
  dosage :: string
  frequency :: string
  instructions :: string

record Feedback =
  rating :: int
  comment :: string

record Appointment =
  aid :: string
  doctorId :: string
  doctorName :: string
  patientId :: string
  patientName :: string
  date :: string
  time :: string
  status :: Status
  patientNote :: string
  prescription :: "Prescription option"
  feedback :: "Feedback option"
  createdAt :: nat

text \<open>
  The \<^verbatim>\<open>UserProfile\<close> interface of \<^verbatim>\<open>AuthContext.tsx\<close>; the documents of the
  \<^verbatim>\<open>users\<close> collection that the booking page reads as \<^verbatim>\<open>Doctor\<close> are profiles
  too. Its \<^verbatim>\<open>createdAt\<close> is named \<open>registeredAt\<close>.
\<close>

datatype Role = Doctor | Patient

record UserProfile =
  uid :: string
  email :: string
  role :: Role
  firstName :: string
  lastName :: string
  registeredAt :: nat

section \<open>The appointment store\<close>

text \<open>
  The Firestore collection \<^verbatim>\<open>appointments\<close> is the list of its documents; the
  document id is the field \<open>aid\<close>. \<^verbatim>\<open>updateDoc\<close> merges the given fields into
  the document with the given id and rejects when there is no such document.
\<close>

definition docExists :: "Appointment list \<Rightarrow> string \<Rightarrow> bool" where
  "docExists store i = list_ex (\<lambda>apt. aid apt = i) store"

definition updateDoc ::
  "Appointment list \<Rightarrow> string \<Rightarrow> (Appointment \<Rightarrow> Appointment) \<Rightarrow> Appointment list option" where
  "updateDoc store i change =
     (if docExists store i
      then Some (map (\<lambda>apt. if aid apt = i then change apt else apt) store)
      else None)"

text \<open>
  A \<open>char\<close> stands for a UTF-16 code unit below 256, and a \<open>string\<close> for a
  JavaScript string of such code units. \<^verbatim>\<open>String.prototype.trim\<close> removes the
  white space and line terminator code units from both ends; those below 256 are tab, line
  feed, vertical tab, form feed, carriage return, space and the no-break space U+00A0.
\<close>

definition isSpace :: "char \<Rightarrow> bool" where
  "isSpace c =
     (c \<in> set [CHR 0x09, CHR 0x0A, CHR 0x0B, CHR 0x0C, CHR 0x0D, CHR 0x20, CHR 0xA0])"

definition trim :: "string \<Rightarrow> string" where
  "trim s = rev (dropWhile isSpace (rev (dropWhile isSpace s)))"

section \<open>Doctor dashboard: handlers\<close>

text \<open>
  The component state of \<^verbatim>\<open>DoctorDashboard\<close> (the \<^verbatim>\<open>useState\<close> cells other than the
  appointment list and the loading flag). The appointment list shown is the live query
  over the store, taken to be up to date. The timers that blank the two messages after
  three seconds are left out: a message field holds the last message set. The parameter
  \<^verbatim>\<open>newStatus\<close> of \<^verbatim>\<open>updateAppointmentStatus\<close> is a string in the source; its
  call sites pass \<^verbatim>\<open>'confirmed'\<close>, \<^verbatim>\<open>'cancelled'\<close> and \<^verbatim>\<open>'in-progress'\<close>, and
  the model takes a status.
\<close>

record DoctorDashboard =
  selectedAppointment :: "string option"
  prescriptionData :: Prescription
  success :: string
  error :: string

definition emptyPrescription :: Prescription where
  "emptyPrescription = \<lparr>medicine = '''', dosage = '''', frequency = '''', instructions = ''''\<rparr>"

definition initialDashboard :: DoctorDashboard where
  "initialDashboard = \<lparr>selectedAppointment = None, prescriptionData = emptyPrescription,
     success = '''', error = ''''\<rparr>"

definition updateAppointmentStatus ::
  "Appointment list \<times> DoctorDashboard \<Rightarrow> string \<Rightarrow> Status
     \<Rightarrow> Appointment list \<times> DoctorDashboard" where
  "updateAppointmentStatus s appointmentId newStatus =
     (case updateDoc (fst s) appointmentId (\<lambda>apt. apt\<lparr>status := newStatus\<rparr>) of
        Some store' \<Rightarrow>
          (store', (snd s)\<lparr>success := ''Appointment ''
              @ (if newStatus = Confirmed then ''accepted'' else ''updated'')
              @ '' successfully!''\<rparr>)
      | None \<Rightarrow> (fst s, (snd s)\<lparr>error := ''Failed to update appointment status''\<rparr>))"

definition handlePrescriptionSubmit ::
  "Appointment list \<times> DoctorDashboard \<Rightarrow> string \<Rightarrow> Appointment list \<times> DoctorDashboard" where
  "handlePrescriptionSubmit s appointmentId =
     (if trim (medicine (prescriptionData (snd s))) = []
      then (fst s, (snd s)\<lparr>error := ''Please enter medicine name''\<rparr>)
      else
        (case updateDoc (fst s) appointmentId
                (\<lambda>apt. apt\<lparr>status := Completed,
                            prescription := Some (prescriptionData (snd s))\<rparr>) of
           Some store' \<Rightarrow>
             (store', (snd s)\<lparr>prescriptionData := emptyPrescription,
                 selectedAppointment := None,
                 success := ''Prescription added and appointment completed!''\<rparr>)
         | None \<Rightarrow> (fst s, (snd s)\<lparr>error := ''Failed to add prescription''\<rparr>)))"

section \<open>Doctor dashboard: aggregation\<close>

text \<open>
  The query of \<^verbatim>\<open>DoctorDashboard\<close>:
  \<^verbatim>\<open>where('doctorId', '==', userProfile.uid)\<close>.
\<close>

definition doctorAppointments :: "string \<Rightarrow> Appointment list \<Rightarrow> Appointment list" where
  "doctorAppointments me store = filter (\<lambda>apt. doctorId apt = me) store"

definition pendingAppointments :: "Appointment list \<Rightarrow> Appointment list" where
  "pendingAppointments appointments = filter (\<lambda>apt. status apt = Pending) appointments"

definition activeAppointments :: "Appointment list \<Rightarrow> Appointment list" where
  "activeAppointments appointments =
     filter (\<lambda>apt. status apt \<in> set [Confirmed, InProgress]) appointments"



text \<open>
  The value of a JavaScript number expression: an IEEE 754 double. A finite double is the
  rational it denotes (the two zeros are not told apart); the other values are the two
  infinities and NaN.
\<close>

datatype Number = NaN | PosInf | NegInf | Num rat

definition pow2 :: "int \<Rightarrow> rat" where
  "pow2 e = (if 0 \<le> e then 2 ^ nat e else 1 / 2 ^ nat (- e))"

text \<open>For a positive rational \<open>a\<close>, the exponent \<open>k\<close> with \<open>2\<^sup>k \<le> a < 2\<^sup>k\<^sup>+\<^sup>1\<close>.\<close>

definition floorLog2 :: "rat \<Rightarrow> int" where
  "floorLog2 a = (if 1 \<le> a then bitlen \<lfloor>a\<rfloor> - 1 else - bitlen (\<lceil>1 / a\<rceil> - 1))"

definition roundHalfEven :: "rat \<Rightarrow> int" where
  "roundHalfEven x =
     (let f = \<lfloor>x\<rfloor>; d = x - of_int f
      in if d < 1 / 2 then f else if 1 / 2 < d then f + 1 else if even f then f else f + 1)"

text \<open>
  The rounding of an exact result to a double, to nearest with ties to even: the
  significand has 53 bits, the least exponent of the last place is -1074, and a result
  that reaches \<open>2\<^sup>1\<^sup>0\<^sup>2\<^sup>4\<close> is an infinity.
\<close>

definition roundDouble :: "rat \<Rightarrow> Number" where
  "roundDouble q =
     (if q = 0 then Num 0
      else
        (let a = \<bar>q\<bar>;
             e = max (- 1074) (floorLog2 a - 52);
             r = of_int (roundHalfEven (a / pow2 e)) * pow2 e
         in if 2 ^ 1024 \<le> r then (if 0 < q then PosInf else NegInf)
            else Num (if 0 < q then r else - r)))"






section \<open>Doctor dashboard: the rendered controls\<close>

text \<open>
  The buttons and inputs of the dashboard. A control exists only where the JSX renders
  it: \<^verbatim>\<open>Accept\<close> and \<^verbatim>\<open>Decline\<close> for each element of
  \<^verbatim>\<open>pendingAppointments\<close>; within \<^verbatim>\<open>activeAppointments\<close>, \<^verbatim>\<open>Start\<close> under
  \<^verbatim>\<open>appointment.status === 'confirmed'\<close>, \<^verbatim>\<open>Add Prescription\<close> under
  \<^verbatim>\<open>appointment.status === 'in-progress'\<close>, and the prescription form (its four
  inputs, \<^verbatim>\<open>Complete Appointment\<close> and \<^verbatim>\<open>Cancel\<close>) under
  \<^verbatim>\<open>selectedAppointment === appointment.id\<close>.
\<close>

datatype PrescriptionField = Medicine | Dosage | Frequency | Instructions

datatype DoctorEvent =
    Accept string
  | Decline string
  | Start string
  | AddPrescription string
  | TypePrescription string PrescriptionField string
  | CompleteAppointment string
  | CancelPrescription string

fun offered :: "string \<Rightarrow> Appointment list \<times> DoctorDashboard \<Rightarrow> DoctorEvent \<Rightarrow> bool" where
  "offered me s (Accept i) =
     list_ex (\<lambda>apt. aid apt = i) (pendingAppointments (doctorAppointments me (fst s)))"
| "offered me s (Decline i) =
     list_ex (\<lambda>apt. aid apt = i) (pendingAppointments (doctorAppointments me (fst s)))"
| "offered me s (Start i) =
     list_ex (\<lambda>apt. aid apt = i \<and> status apt = Confirmed)
       (activeAppointments (doctorAppointments me (fst s)))"
| "offered me s (AddPrescription i) =
     list_ex (\<lambda>apt. aid apt = i \<and> status apt = InProgress)
       (activeAppointments (doctorAppointments me (fst s)))"
| "offered me s (TypePrescription i f v) =
     list_ex (\<lambda>apt. aid apt = i \<and> selectedAppointment (snd s) = Some (aid apt))
       (activeAppointments (doctorAppointments me (fst s)))"
| "offered me s (CompleteAppointment i) =
     list_ex (\<lambda>apt. aid apt = i \<and> selectedAppointment (snd s) = Some (aid apt))
       (activeAppointments (doctorAppointments me (fst s)))"
| "offered me s (CancelPrescription i) =
     list_ex (\<lambda>apt. aid apt = i \<and> selectedAppointment (snd s) = Some (aid apt))
       (activeAppointments (doctorAppointments me (fst s)))"

fun setPrescriptionField :: "PrescriptionField \<Rightarrow> string \<Rightarrow> Prescription \<Rightarrow> Prescription" where
  "setPrescriptionField Medicine v p = p\<lparr>medicine := v\<rparr>"
| "setPrescriptionField Dosage v p = p\<lparr>dosage := v\<rparr>"
| "setPrescriptionField Frequency v p = p\<lparr>frequency := v\<rparr>"
| "setPrescriptionField Instructions v p = p\<lparr>instructions := v\<rparr>"

text \<open>The \<^verbatim>\<open>onClick\<close> and \<^verbatim>\<open>onChange\<close> callbacks of the controls.\<close>

fun handler ::
  "Appointment list \<times> DoctorDashboard \<Rightarrow> DoctorEvent \<Rightarrow> Appointment list \<times> DoctorDashboard" where
  "handler s (Accept i) = updateAppointmentStatus s i Confirmed"
| "handler s (Decline i) = updateAppointmentStatus s i Cancelled"
| "handler s (Start i) = updateAppointmentStatus s i InProgress"
| "handler s (AddPrescription i) = (fst s, (snd s)\<lparr>selectedAppointment := Some i\<rparr>)"
| "handler s (TypePrescription i f v) =
     (fst s, (snd s)\<lparr>prescriptionData := setPrescriptionField f v (prescriptionData (snd s))\<rparr>)"
| "handler s (CompleteAppointment i) = handlePrescriptionSubmit s i"
| "handler s (CancelPrescription i) = (fst s, (snd s)\<lparr>selectedAppointment := None\<rparr>)"

text \<open>
  One action of the doctor with uid \<open>me\<close>: a control that is rendered runs its callback;
  a control that is not rendered cannot be used, and the state stays as it is.
\<close>

definition doctorClick ::
  "string \<Rightarrow> Appointment list \<times> DoctorDashboard \<Rightarrow> DoctorEvent
     \<Rightarrow> Appointment list \<times> DoctorDashboard" where
  "doctorClick me s ev = (if offered me s ev then handler s ev else s)"

definition doctorRun ::
  "string \<Rightarrow> Appointment list \<times> DoctorDashboard \<Rightarrow> DoctorEvent list
     \<Rightarrow> Appointment list \<times> DoctorDashboard" where
  "doctorRun me s evs = foldl (doctorClick me) s evs"

text \<open>The edges of the status workflow.\<close>

fun followsEdge :: "Status \<Rightarrow> Status \<Rightarrow> bool" where
  "followsEdge Pending Confirmed = True"
| "followsEdge Pending Cancelled = True"
| "followsEdge Confirmed InProgress = True"
| "followsEdge InProgress Completed = True"
| "followsEdge _ _ = False"

text \<open>
  What one action may do to one record: nothing; a status-only write along an edge
  other than the one into completed; or the write of the prescription form, which takes
  an in-progress record to completed and attaches a prescription whose medicine is not
  blank, both in the same document write.
\<close>

definition legalChange :: "Appointment \<Rightarrow> Appointment \<Rightarrow> bool" where
  "legalChange a a' =
     (a' = a
      \<or> (a' = a\<lparr>status := status a'\<rparr> \<and> followsEdge (status a) (status a')
          \<and> status a' \<noteq> Completed)
      \<or> (status a = InProgress
          \<and> (case prescription a' of
                None \<Rightarrow> False
              | Some p \<Rightarrow> a' = a\<lparr>status := Completed, prescription := Some p\<rparr>
                          \<and> trim (medicine p) \<noteq> [])))"

text \<open>
  The form is open only on a record that is past confirmation: the selected id, if any,
  names no pending or confirmed record.
\<close>

definition selectionPastConfirmed :: "Appointment list \<times> DoctorDashboard \<Rightarrow> bool" where
  "selectionPastConfirmed s =
     list_all (\<lambda>apt. selectedAppointment (snd s) \<noteq> Some (aid apt)
                     \<or> status apt \<in> set [InProgress, Completed, Cancelled]) (fst s)"

text \<open>Invariant I2, the direction the workflow guarantees.\<close>

definition completedHavePrescription :: "Appointment list \<Rightarrow> bool" where
  "completedHavePrescription store =
     list_all (\<lambda>apt. status apt \<noteq> Completed \<or> prescription apt \<noteq> None) store"

section \<open>Patient dashboard\<close>

text \<open>
  The query of \<^verbatim>\<open>PatientDashboard\<close>:
  \<^verbatim>\<open>where('patientId', '==', userProfile.uid)\<close>, and its two lists.
\<close>

definition patientAppointments :: "string \<Rightarrow> Appointment list \<Rightarrow> Appointment list" where
  "patientAppointments me store = filter (\<lambda>apt. patientId apt = me) store"

definition upcomingAppointments :: "Appointment list \<Rightarrow> Appointment list" where
  "upcomingAppointments appointments =
     filter (\<lambda>apt. status apt \<in> set [Pending, Confirmed, InProgress]) appointments"

definition pastAppointments :: "Appointment list \<Rightarrow> Appointment list" where
  "pastAppointments appointments =
     filter (\<lambda>apt. status apt \<in> set [Completed, Cancelled]) appointments"

text \<open>
  The three numbers of the stats cards: \<^verbatim>\<open>Upcoming Appointments\<close>,
  \<^verbatim>\<open>Prescriptions\<close> and \<^verbatim>\<open>Completed Visits\<close>.
\<close>

definition upcomingCard :: "Appointment list \<Rightarrow> nat" where
  "upcomingCard appointments = length (upcomingAppointments appointments)"

definition prescriptionsCard :: "Appointment list \<Rightarrow> nat" where
  "prescriptionsCard appointments =
     length (filter (\<lambda>apt. prescription apt \<noteq> None) appointments)"

definition completedVisitsCard :: "Appointment list \<Rightarrow> nat" where
  "completedVisitsCard appointments = length (pastAppointments appointments)"

text \<open>
  The prescription block of a card in the past list:
  \<^verbatim>\<open>appointment.prescription && appointment.status === 'completed'\<close>.
\<close>

definition prescriptionShown :: "Appointment \<Rightarrow> Prescription option" where
  "prescriptionShown apt =
     (if prescription apt \<noteq> None \<and> status apt = Completed then prescription apt else None)"

text \<open>
  What a signed-in user is shown of the prescription of the appointment with id \<open>i\<close>. A
  patient sees the past list of the patient dashboard. The doctor dashboard renders the
  pending list, the active list and the feedback list, and in none of them a stored
  prescription.
\<close>

definition viewPrescription ::
  "UserProfile \<Rightarrow> Appointment list \<Rightarrow> string \<Rightarrow> Prescription option" where
  "viewPrescription userProfile store i =
     (case role userProfile of
        Patient \<Rightarrow>
          (case find (\<lambda>apt. aid apt = i)
                  (pastAppointments (patientAppointments (uid userProfile) store)) of
             None \<Rightarrow> None
           | Some apt \<Rightarrow> prescriptionShown apt)
      | Doctor \<Rightarrow> None)"

subsection \<open>Feedback\<close>

text \<open>
  \<^verbatim>\<open>feedbackData\<close> maps an appointment id to the entry of its form.
  \<^verbatim>\<open>updateFeedback\<close> builds the new entry as the object literal does, key after
  key, a later key replacing an earlier one of the same name: the spread of the previous
  entry, then \<^verbatim>\<open>[field]: value\<close>, then
  \<^verbatim>\<open>rating: prev[appointmentId]?.rating || 0\<close> and
  \<^verbatim>\<open>comment: prev[appointmentId]?.comment || ''\<close>. Without a previous entry the
  spread adds no key, and the last two keys define both fields.
\<close>

datatype FeedbackInput = RatingInput int | CommentInput string

definition updateFeedback ::
  "(string \<rightharpoonup> Feedback) \<Rightarrow> string \<Rightarrow> FeedbackInput \<Rightarrow> (string \<rightharpoonup> Feedback)" where
  "updateFeedback prev appointmentId inp =
     (let spread = (case prev appointmentId of
                      Some old \<Rightarrow> old
                    | None \<Rightarrow> \<lparr>rating = 0, comment = []\<rparr>);
          written = (case inp of
                       RatingInput r \<Rightarrow> spread\<lparr>rating := r\<rparr>
                     | CommentInput c \<Rightarrow> spread\<lparr>comment := c\<rparr>)
      in prev(appointmentId \<mapsto>
           written\<lparr>rating := (case prev appointmentId of
                                 Some old \<Rightarrow> (if rating old \<noteq> 0 then rating old else 0)
                               | None \<Rightarrow> 0),
                    comment := (case prev appointmentId of
                                  Some old \<Rightarrow> (if comment old \<noteq> [] then comment old else [])
                                | None \<Rightarrow> [])\<rparr>))"

text \<open>
  \<^verbatim>\<open>handleFeedbackSubmit\<close>: returns at once without an entry or with rating 0;
  a rejected write is only logged.
\<close>

definition handleFeedbackSubmit ::
  "Appointment list \<times> (string \<rightharpoonup> Feedback) \<Rightarrow> string
     \<Rightarrow> Appointment list \<times> (string \<rightharpoonup> Feedback)" where
  "handleFeedbackSubmit s appointmentId =
     (case snd s appointmentId of
        None \<Rightarrow> s
      | Some fb \<Rightarrow>
          if rating fb = 0 then s
          else (case updateDoc (fst s) appointmentId (\<lambda>apt. apt\<lparr>feedback := Some fb\<rparr>) of
                  Some store' \<Rightarrow> (store', (snd s)(appointmentId := None))
                | None \<Rightarrow> s))"

text \<open>
  The controls of the feedback form, rendered in the past list under
  \<^verbatim>\<open>appointment.status === 'completed' && !appointment.feedback\<close>: the five star
  buttons, the comment box, and the submit button, disabled under
  \<^verbatim>\<open>!feedbackData[appointment.id]?.rating\<close>.
\<close>

datatype PatientEvent =
    ClickStar string int
  | TypeComment string string
  | SubmitFeedback string

definition feedbackFormShown :: "string \<Rightarrow> Appointment list \<Rightarrow> string \<Rightarrow> bool" where
  "feedbackFormShown me store i =
     list_ex (\<lambda>apt. aid apt = i \<and> status apt = Completed \<and> feedback apt = None)
       (pastAppointments (patientAppointments me store))"

fun patientOffered ::
  "string \<Rightarrow> Appointment list \<times> (string \<rightharpoonup> Feedback) \<Rightarrow> PatientEvent \<Rightarrow> bool" where
  "patientOffered me s (ClickStar i star) =
     (feedbackFormShown me (fst s) i \<and> star \<in> set [1, 2, 3, 4, 5])"
| "patientOffered me s (TypeComment i c) = feedbackFormShown me (fst s) i"
| "patientOffered me s (SubmitFeedback i) =
     (feedbackFormShown me (fst s) i
      \<and> (case snd s i of None \<Rightarrow> False | Some fb \<Rightarrow> rating fb \<noteq> 0))"

fun patientHandler ::
  "Appointment list \<times> (string \<rightharpoonup> Feedback) \<Rightarrow> PatientEvent
     \<Rightarrow> Appointment list \<times> (string \<rightharpoonup> Feedback)" where
  "patientHandler s (ClickStar i star) = (fst s, updateFeedback (snd s) i (RatingInput star))"
| "patientHandler s (TypeComment i c) = (fst s, updateFeedback (snd s) i (CommentInput c))"
| "patientHandler s (SubmitFeedback i) = handleFeedbackSubmit s i"

definition patientClick ::
  "string \<Rightarrow> Appointment list \<times> (string \<rightharpoonup> Feedback) \<Rightarrow> PatientEvent
     \<Rightarrow> Appointment list \<times> (string \<rightharpoonup> Feedback)" where
  "patientClick me s ev = (if patientOffered me s ev then patientHandler s ev else s)"

definition patientRun ::
  "string \<Rightarrow> Appointment list \<times> (string \<rightharpoonup> Feedback) \<Rightarrow> PatientEvent list
     \<Rightarrow> Appointment list \<times> (string \<rightharpoonup> Feedback)" where
  "patientRun me s evs = foldl (patientClick me) s evs"

text \<open>A form entry, if there is one, has rating 0.\<close>

definition ratingZero :: "Feedback option \<Rightarrow> bool" where
  "ratingZero entry = (case entry of None \<Rightarrow> True | Some fb \<Rightarrow> rating fb = 0)"

section \<open>Booking page\<close>

text \<open>
  The form state of \<^verbatim>\<open>BookAppointment\<close>; the fields \<^verbatim>\<open>date\<close>, \<^verbatim>\<open>time\<close>,
  \<^verbatim>\<open>note\<close>, \<^verbatim>\<open>success\<close> and \<^verbatim>\<open>error\<close> carry a prefix, since the plain names
  are fields of other records here.
\<close>

record BookAppointment =
  selectedDoctor :: string
  formDate :: string
  formTime :: string
  formNote :: string
  loading :: bool
  bookSuccess :: bool
  bookError :: string


text \<open>
  \<^verbatim>\<open>todayAppointments\<close> is the size of the live query
  \<^verbatim>\<open>where('patientId', '==', userProfile.uid), where('date', '==', today)\<close>, taken
  to be up to date; without a profile the query is never made and the count stays 0.
  \<^verbatim>\<open>today\<close> is \<^verbatim>\<open>new Date().toISOString().split('T')[0]\<close>, the current date
  in UTC as \<^verbatim>\<open>YYYY-MM-DD\<close>; it is a parameter here.
\<close>

definition todayAppointments :: "UserProfile option \<Rightarrow> string \<Rightarrow> Appointment list \<Rightarrow> nat" where
  "todayAppointments userProfile today store =
     (case userProfile of
        None \<Rightarrow> 0
      | Some p \<Rightarrow> length (filter (\<lambda>apt. patientId apt = uid p \<and> date apt = today) store))"

text \<open>
  \<^verbatim>\<open>handleSubmit\<close>. The comparison \<^verbatim>\<open>date < today\<close> is the order of strings.
  Inside \<^verbatim>\<open>try\<close>, the non-null assertions on \<^verbatim>\<open>userProfile\<close> and on the
  result of \<^verbatim>\<open>doctors.find\<close> throw on a missing value before \<^verbatim>\<open>addDoc\<close> is
  called, and the \<^verbatim>\<open>catch\<close> sets the failure message. \<^verbatim>\<open>addDoc\<close> appends the
  document under the id \<open>newId\<close> that the store generates; \<open>now\<close> is
  \<^verbatim>\<open>new Date()\<close>. The timer that hides the success banner is left out.
\<close>

definition handleSubmit ::
  "string \<Rightarrow> nat \<Rightarrow> string \<Rightarrow> UserProfile option \<Rightarrow> UserProfile list
     \<Rightarrow> Appointment list \<times> BookAppointment \<Rightarrow> Appointment list \<times> BookAppointment" where
  "handleSubmit today now newId userProfile doctors s =
     (if todayAppointments userProfile today (fst s) \<ge> 2
      then (fst s, (snd s)\<lparr>bookError :=
              ''You can only book a maximum of 2 appointments per day.''\<rparr>)
      else if selectedDoctor (snd s) = [] \<or> formDate (snd s) = [] \<or> formTime (snd s) = []
      then (fst s, (snd s)\<lparr>bookError := ''Please fill in all required fields.''\<rparr>)
      else if formDate (snd s) < today
      then (fst s, (snd s)\<lparr>bookError := ''Please select a future date.''\<rparr>)
      else
        (case (userProfile, find (\<lambda>doc. uid doc = selectedDoctor (snd s)) doctors) of
           (Some p, Some selectedDoctorData) \<Rightarrow>
             (fst s @
                [\<lparr>aid = newId,
                  doctorId = selectedDoctor (snd s),
                  doctorName = firstName selectedDoctorData @ '' '' @ lastName selectedDoctorData,
                  patientId = uid p,
                  patientName = firstName p @ '' '' @ lastName p,
                  date = formDate (snd s),
                  time = formTime (snd s),
                  status = Pending,
                  patientNote = trim (formNote (snd s)),
                  prescription = None,
                  feedback = None,
                  createdAt = now\<rparr>],
              (snd s)\<lparr>loading := False, bookError := [], bookSuccess := True,
                 selectedDoctor := [], formDate := [], formTime := [], formNote := []\<rparr>)
         | _ \<Rightarrow>
             (fst s, (snd s)\<lparr>loading := False,
                bookError := ''Failed to book appointment. Please try again.''\<rparr>)))"

section \<open>Registration\<close>

text \<open>\<^verbatim>\<open>String.prototype.endsWith\<close> and \<^verbatim>\<open>validateEmail\<close>.\<close>

definition endsWith :: "string \<Rightarrow> string \<Rightarrow> bool" where
  "endsWith s searchString =
     (length searchString \<le> length s
      \<and> drop (length s - length searchString) s = searchString)"

definition validateEmail :: "string \<Rightarrow> bool" where
  "validateEmail e = endsWith e ''@meditrack.local''"

text \<open>
  The state \<^verbatim>\<open>register\<close> acts on: the accounts of the authentication service
  (uid and email), the documents of the \<^verbatim>\<open>users\<close> collection, and the
  \<^verbatim>\<open>userProfile\<close> cell of the context (here \<open>currentProfile\<close>). The outcome of
  \<^verbatim>\<open>createUserWithEmailAndPassword\<close> is the parameter \<open>created\<close>: an error code or
  the uid of the new account, whose email is the one passed in. An exception is the
  \<open>Inl\<close> result; nothing is written before it is thrown.
\<close>

record AuthState =
  accounts :: "(string \<times> string) list"
  users :: "UserProfile list"
  currentProfile :: "UserProfile option"

datatype AuthError = Error string | ServiceError string

definition setDocUser :: "UserProfile list \<Rightarrow> UserProfile \<Rightarrow> UserProfile list" where
  "setDocUser docs profile = filter (\<lambda>d. uid d \<noteq> uid profile) docs @ [profile]"

definition register ::
  "AuthState \<Rightarrow> string \<Rightarrow> string \<Rightarrow> string \<Rightarrow> string \<Rightarrow> Role \<Rightarrow> nat
     \<Rightarrow> string + string \<Rightarrow> AuthError + AuthState" where
  "register st e password fName lName r now created =
     (if \<not> validateEmail e
      then Inl (Error ''Email must end with @meditrack.local'')
      else
        (case created of
           Inl code \<Rightarrow> Inl (ServiceError code)
         | Inr newUid \<Rightarrow>
             (let profile = \<lparr>uid = newUid, email = e, role = r, firstName = fName,
                              lastName = lName, registeredAt = now\<rparr>
              in Inr (st\<lparr>accounts := accounts st @ [(newUid, e)],
                         users := setDocUser (users st) profile,
                         currentProfile := Some profile\<rparr>))))"

text \<open>
  A sequence of registration attempts, each with the service's outcome; a failed
  attempt leaves the state as it was.
\<close>

record RegisterCall =
  callEmail :: string
  callPassword :: string
  callFirstName :: string
  callLastName :: string
  callRole :: Role
  callNow :: nat
  callCreated :: "string + string"

definition registerStep :: "AuthState \<Rightarrow> RegisterCall \<Rightarrow> AuthState" where
  "registerStep st c =
     (case register st (callEmail c) (callPassword c) (callFirstName c) (callLastName c)
             (callRole c) (callNow c) (callCreated c) of
        Inl err \<Rightarrow> st
      | Inr st' \<Rightarrow> st')"

definition emptyAuth :: AuthState where
  "emptyAuth = \<lparr>accounts = [], users = [], currentProfile = None\<rparr>"

section \<open>Relations between states and sample data\<close>

text \<open>The status of a record after an action, against its status before.\<close>

definition statusStep :: "Appointment \<Rightarrow> Appointment \<Rightarrow> bool" where
  "statusStep a a' =
     (aid a' = aid a \<and> (status a' = status a \<or> followsEdge (status a) (status a')))"

text \<open>
  The prescription of a record after an action: as before, with no entry into completed;
  or written, with a medicine that is not blank, by the action that takes the record from
  in-progress to completed.
\<close>

definition prescriptionStep :: "Appointment \<Rightarrow> Appointment \<Rightarrow> bool" where
  "prescriptionStep a a' =
     ((prescription a' = prescription a \<and> (status a' \<noteq> Completed \<or> status a = Completed))
      \<or> (status a = InProgress \<and> status a' = Completed
          \<and> (case prescription a' of None \<Rightarrow> False | Some p \<Rightarrow> trim (medicine p) \<noteq> [])))"

text \<open>Sample data for the concrete instances.\<close>

definition sampleDoctor :: UserProfile where
  "sampleDoctor = \<lparr>uid = ''d1'', email = ''doctor@meditrack.local'', role = Doctor,
     firstName = ''Ann'', lastName = ''Lee'', registeredAt = 0\<rparr>"

definition samplePatient :: UserProfile where
  "samplePatient = \<lparr>uid = ''p1'', email = ''patient@meditrack.local'', role = Patient,
     firstName = ''Bob'', lastName = ''Ray'', registeredAt = 0\<rparr>"

definition sampleAppointment :: Appointment where
  "sampleAppointment = \<lparr>aid = ''a1'', doctorId = ''d1'', doctorName = ''Ann Lee'',
     patientId = ''p1'', patientName = ''Bob Ray'', date = ''2025-06-02'', time = ''09:00'',
     status = Pending, patientNote = [], prescription = None, feedback = None,
     createdAt = 0\<rparr>"

definition amoxicillin :: Prescription where
  "amoxicillin = \<lparr>medicine = ''Amoxicillin'', dosage = ''500mg'',
     frequency = ''Twice daily'', instructions = ''After meals''\<rparr>"

definition completedSample :: Appointment where
  "completedSample = sampleAppointment\<lparr>status := Completed, prescription := Some amoxicillin\<rparr>"


definition sampleForm :: BookAppointment where
  "sampleForm = \<lparr>selectedDoctor = ''d1'', formDate = ''2025-06-02'', formTime = ''10:00'',
     formNote = '' cough '', loading = False, bookSuccess = False, bookError = []\<rparr>"

definition twoBooked :: "Appointment list" where
  "twoBooked = [sampleAppointment, sampleAppointment\<lparr>aid := ''a2'', time := ''09:30''\<rparr>]"

definition fourBooked :: "Appointment list" where
  "fourBooked = twoBooked @
     [sampleAppointment\<lparr>aid := ''a3'', date := ''2025-06-01''\<rparr>,
      sampleAppointment\<lparr>aid := ''a4'', date := ''2025-06-01'', time := ''09:30''\<rparr>]"


text \<open>Every account and every profile has an address of the clinic's domain.\<close>

definition domainOnly :: "AuthState \<Rightarrow> bool" where
  "domainOnly st =
     (list_all (\<lambda>acc. validateEmail (snd acc)) (accounts st)
      \<and> list_all (\<lambda>p. validateEmail (email p)) (users st))"

definition registerAll :: "AuthState \<Rightarrow> RegisterCall list \<Rightarrow> AuthState" where
  "registerAll st calls = foldl registerStep st calls"

section \<open>Properties\<close>

subsection \<open>Aggregation\<close>



subsection \<open>The rounding to a double\<close>

lemma pow2_pos: "0 < pow2 e"
  by (simp add: pow2_def)

lemma pow2_nat: "0 \<le> k \<Longrightarrow> pow2 k = 2 ^ nat k"
  by (simp add: pow2_def)

lemma pow2_neg_nat: "pow2 (- int n) = 1 / 2 ^ n"
  by (cases "n = 0") (simp_all add: pow2_def)

lemma roundHalfEven_near: "\<bar>of_int (roundHalfEven x) - x\<bar> \<le> 1 / 2"
proof -
  have "of_int \<lfloor>x\<rfloor> \<le> x" "x < of_int \<lfloor>x\<rfloor> + 1"
    by linarith+
  then show ?thesis
    by (auto simp: roundHalfEven_def Let_def)
qed

lemma bitlen_pos:
  assumes "0 < k"
  shows "1 \<le> bitlen k"
proof (rule ccontr)
  assume "\<not> 1 \<le> bitlen k"
  then have "nat (bitlen k) = 0" by simp
  moreover from assms have "k < 2 ^ nat (bitlen k)"
    using bitlen_bounds [of k] by simp
  ultimately show False using assms by simp
qed

lemma floorLog2_bounds:
  assumes "0 < a"
  shows "pow2 (floorLog2 a) \<le> a \<and> a < pow2 (floorLog2 a + 1)"
proof (cases "1 \<le> a")
  case True
  define n where "n = \<lfloor>a\<rfloor>"
  from True have n: "1 \<le> n" by (simp add: n_def le_floor_iff)
  then have b: "2 ^ nat (bitlen n - 1) \<le> n" "n < 2 ^ nat (bitlen n)"
    using bitlen_bounds [of n] by simp_all
  have k: "1 \<le> bitlen n"
    using n by (intro bitlen_pos) simp
  have fl: "floorLog2 a = bitlen n - 1"
    using True by (simp add: floorLog2_def n_def)
  have "(2::rat) ^ nat (bitlen n - 1) = of_int (2 ^ nat (bitlen n - 1))" by simp
  also have "\<dots> \<le> of_int n" using b(1) by (simp only: of_int_le_iff)
  also have "\<dots> \<le> a" by (simp add: n_def)
  finally have lo: "pow2 (floorLog2 a) \<le> a"
    using k by (simp add: fl pow2_nat)
  have "a < of_int (n + 1)"
    unfolding n_def using floor_correct [of a] by simp
  also have "\<dots> \<le> of_int (2 ^ nat (bitlen n))"
    using b(2) by (simp only: of_int_le_iff; simp)
  finally have hi: "a < pow2 (floorLog2 a + 1)"
    using k by (simp add: fl pow2_nat)
  from lo hi show ?thesis ..
next
  case False
  define m where "m = \<lceil>1 / a\<rceil> - 1"
  from False assms have inv: "1 < 1 / a" by simp
  then have m: "1 \<le> m" by (simp add: m_def less_ceiling_iff)
  then have b: "2 ^ nat (bitlen m - 1) \<le> m" "m < 2 ^ nat (bitlen m)"
    using bitlen_bounds [of m] by simp_all
  have k: "1 \<le> bitlen m"
    using m by (intro bitlen_pos) simp
  have fl: "floorLog2 a = - bitlen m"
    using False by (simp add: floorLog2_def m_def)
  have "1 / a \<le> of_int (m + 1)" by (simp add: m_def)
  also have "\<dots> \<le> of_int (2 ^ nat (bitlen m))"
    using b(2) by (simp only: of_int_le_iff; simp)
  finally have "1 / a \<le> 2 ^ nat (bitlen m)" by simp
  with assms have "1 / 2 ^ nat (bitlen m) \<le> a"
    by (simp add: divide_le_eq mult.commute)
  moreover have "pow2 (- bitlen m) = 1 / 2 ^ nat (bitlen m)"
    using k pow2_neg_nat [of "nat (bitlen m)"] by simp
  ultimately have lo: "pow2 (floorLog2 a) \<le> a" by (simp add: fl)
  have "(2::rat) ^ nat (bitlen m - 1) = of_int (2 ^ nat (bitlen m - 1))" by simp
  also have "\<dots> \<le> of_int m" using b(1) by (simp only: of_int_le_iff)
  also have "of_int m < 1 / a"
    unfolding m_def using ceiling_correct [of "1 / a"] by simp
  finally have "2 ^ nat (bitlen m - 1) < 1 / a" .
  with assms have "a < 1 / 2 ^ nat (bitlen m - 1)"
    by (simp add: less_divide_eq mult.commute)
  moreover have "pow2 (- bitlen m + 1) = 1 / 2 ^ nat (bitlen m - 1)"
    using k pow2_neg_nat [of "nat (bitlen m - 1)"] by simp
  ultimately have hi: "a < pow2 (floorLog2 a + 1)" by (simp add: fl)
  from lo hi show ?thesis ..
qed


lemma pow2_powi: "pow2 e = 2 powi e"
  by (simp add: pow2_def power_int_def inverse_eq_divide power_one_over)

lemma pow2_add: "pow2 (x + y) = pow2 x * pow2 y"
  by (simp add: pow2_powi power_int_add)

lemma pow2_mono: "x \<le> y \<Longrightarrow> pow2 x \<le> pow2 y"
  by (simp add: pow2_powi power_int_increasing)

text \<open>
  A finite result of the rounding is a multiple of the spacing of the doubles around the
  exact value, with a significand of at most 53 bits, and lies within half a spacing of
  the exact value.
\<close>

lemma roundDouble_near:
  assumes "roundDouble q = Num r" "q \<noteq> 0"
  shows "\<exists>m. \<bar>m\<bar> \<le> 2 ^ 53
           \<and> r = of_int m * pow2 (max (- 1074) (floorLog2 \<bar>q\<bar> - 52))
           \<and> \<bar>r - q\<bar> \<le> pow2 (max (- 1074) (floorLog2 \<bar>q\<bar> - 52)) / 2"
proof -
  define a where "a = \<bar>q\<bar>"
  define e where "e = max (- 1074) (floorLog2 a - 52)"
  define m where "m = roundHalfEven (a / pow2 e)"
  have apos: "0 < a" using assms(2) by (simp add: a_def)
  have epos: "0 < pow2 e" by (rule pow2_pos)
  have near: "\<bar>of_int m - a / pow2 e\<bar> \<le> 1 / 2"
    unfolding m_def by (rule roundHalfEven_near)
  have "of_int m * pow2 e - a = (of_int m - a / pow2 e) * pow2 e"
    using epos by (simp add: left_diff_distrib)
  then have "\<bar>of_int m * pow2 e - a\<bar> = \<bar>of_int m - a / pow2 e\<bar> * \<bar>pow2 e\<bar>"
    by (simp only: abs_mult)
  also have "\<bar>pow2 e\<bar> = pow2 e"
    using epos by simp
  finally have "\<bar>of_int m * pow2 e - a\<bar> = \<bar>of_int m - a / pow2 e\<bar> * pow2 e" .
  also have "\<dots> \<le> 1 / 2 * pow2 e"
    using near epos by (intro mult_right_mono) simp_all
  finally have dist: "\<bar>of_int m * pow2 e - a\<bar> \<le> pow2 e / 2" by simp
  have "a < pow2 (floorLog2 a + 1)"
    using floorLog2_bounds [OF apos] by simp
  also have "\<dots> \<le> pow2 (e + 53)"
    by (rule pow2_mono) (simp add: e_def)
  also have "\<dots> = pow2 e * pow2 53"
    by (rule pow2_add)
  also have "pow2 53 = 2 ^ 53"
    by (simp add: pow2_def)
  finally have "a / pow2 e < 2 ^ 53"
    using epos by (simp add: divide_less_eq mult.commute)
  with near have "(of_int m :: rat) < 2 ^ 53 + 1" by linarith
  then have "(of_int m :: rat) < of_int (2 ^ 53 + 1)" by simp
  then have mhi: "m \<le> 2 ^ 53" by (simp only: of_int_less_iff; simp)
  have "0 \<le> a / pow2 e" using apos epos by simp
  with near have "- 1 < (of_int m :: rat)" by linarith
  then have "(of_int (- 1) :: rat) < of_int m" by simp
  then have mlo: "0 \<le> m" by (simp only: of_int_less_iff; simp)
  from assms have r: "r = (if 0 < q then of_int m * pow2 e else - (of_int m * pow2 e))"
    by (simp add: roundDouble_def Let_def a_def e_def m_def split: if_splits)
  show ?thesis
  proof (cases "0 < q")
    case True
    with r dist mhi mlo show ?thesis
      by (intro exI [of _ m]) (simp add: a_def e_def)
  next
    case False
    with assms(2) have "q < 0" by simp
    with r dist mhi mlo show ?thesis
      by (intro exI [of _ "- m"]) (simp add: a_def e_def abs_minus_commute add.commute)
  qed
qed

subsection \<open>Integers below \<open>2\<^sup>5\<^sup>3\<close> are doubles\<close>













subsection \<open>The doctor workflow\<close>

lemma legalChange_refl: "legalChange a a"
  by (simp add: legalChange_def)

lemma unique_by_id:
  assumes "distinct (map aid store)" "a \<in> set store" "b \<in> set store" "aid a = aid b"
  shows "a = b"
  using assms by (meson distinct_map inj_onD)

lemma updateDoc_legal:
  assumes d: "distinct (map aid store)"
    and w: "apt \<in> set store" "aid apt = i" "legalChange apt (change apt)"
  shows "list_all2 legalChange store (map (\<lambda>a. if aid a = i then change a else a) store)"
proof -
  have "legalChange a (if aid a = i then change a else a)" if "a \<in> set store" for a
  proof (cases "aid a = i")
    case True
    with d w that have "a = apt" by (auto intro: unique_by_id)
    with True w show ?thesis by simp
  next
    case False
    then show ?thesis by (simp add: legalChange_refl)
  qed
  then show ?thesis
    by (simp add: list_all2_conv_all_nth)
qed

lemma list_ex_filter_witness:
  "list_ex P (filter Q xs) \<Longrightarrow> \<exists>x\<in>set xs. P x \<and> Q x"
  by (auto simp: list_ex_iff)

lemma offered_Accept:
  "offered me s (Accept i) \<Longrightarrow> \<exists>apt\<in>set (fst s). aid apt = i \<and> status apt = Pending \<and> doctorId apt = me"
  by (auto simp: list_ex_iff pendingAppointments_def doctorAppointments_def)

lemma offered_Decline:
  "offered me s (Decline i) \<Longrightarrow> \<exists>apt\<in>set (fst s). aid apt = i \<and> status apt = Pending \<and> doctorId apt = me"
  by (auto simp: list_ex_iff pendingAppointments_def doctorAppointments_def)

lemma offered_Start:
  "offered me s (Start i) \<Longrightarrow> \<exists>apt\<in>set (fst s). aid apt = i \<and> status apt = Confirmed \<and> doctorId apt = me"
  by (auto simp: list_ex_iff activeAppointments_def doctorAppointments_def)

lemma offered_AddPrescription:
  "offered me s (AddPrescription i) \<Longrightarrow> \<exists>apt\<in>set (fst s). aid apt = i \<and> status apt = InProgress \<and> doctorId apt = me"
  by (auto simp: list_ex_iff activeAppointments_def doctorAppointments_def)

lemma offered_CompleteAppointment:
  "offered me s (CompleteAppointment i) \<Longrightarrow>
     \<exists>apt\<in>set (fst s). aid apt = i \<and> selectedAppointment (snd s) = Some i
        \<and> (status apt = Confirmed \<or> status apt = InProgress) \<and> doctorId apt = me"
  by (auto simp: list_ex_iff activeAppointments_def doctorAppointments_def)

lemma selected_not_confirmed:
  "selectionPastConfirmed s \<Longrightarrow> apt \<in> set (fst s) \<Longrightarrow> selectedAppointment (snd s) = Some (aid apt)
     \<Longrightarrow> status apt = InProgress \<or> status apt = Completed \<or> status apt = Cancelled"
  by (auto simp: selectionPastConfirmed_def list_all_iff)

lemma updateAppointmentStatus_legal:
  assumes d: "distinct (map aid (fst s))"
    and w: "apt \<in> set (fst s)" "aid apt = i" "followsEdge (status apt) st" "st \<noteq> Completed"
  shows "list_all2 legalChange (fst s) (fst (updateAppointmentStatus s i st))"
proof -
  have ex: "docExists (fst s) i"
    using w by (auto simp: docExists_def list_ex_iff)
  have "legalChange apt (apt\<lparr>status := st\<rparr>)"
    using w by (simp add: legalChange_def)
  from updateDoc_legal [OF d w(1) w(2), of "\<lambda>a. a\<lparr>status := st\<rparr>", OF this] ex
  show ?thesis
    by (simp add: updateAppointmentStatus_def updateDoc_def)
qed

lemma handlePrescriptionSubmit_legal:
  assumes d: "distinct (map aid (fst s))"
    and w: "apt \<in> set (fst s)" "aid apt = i" "status apt = InProgress"
  shows "list_all2 legalChange (fst s) (fst (handlePrescriptionSubmit s i))"
proof (cases "trim (medicine (prescriptionData (snd s))) = []")
  case True
  then show ?thesis
    by (simp add: handlePrescriptionSubmit_def list_all2_conv_all_nth legalChange_refl)
next
  case False
  have ex: "docExists (fst s) i"
    using w by (auto simp: docExists_def list_ex_iff)
  have "legalChange apt (apt\<lparr>status := Completed, prescription := Some (prescriptionData (snd s))\<rparr>)"
    using w False by (simp add: legalChange_def)
  from updateDoc_legal [OF d w(1) w(2),
      of "\<lambda>a. a\<lparr>status := Completed, prescription := Some (prescriptionData (snd s))\<rparr>", OF this]
    ex False
  show ?thesis
    by (simp add: handlePrescriptionSubmit_def updateDoc_def)
qed

lemma doctorClick_legal:
  assumes d: "distinct (map aid (fst s))" and inv: "selectionPastConfirmed s"
  shows "list_all2 legalChange (fst s) (fst (doctorClick me s ev))"
proof (cases "offered me s ev")
  case False
  then show ?thesis
    by (simp add: doctorClick_def list_all2_conv_all_nth legalChange_refl)
next
  case True
  show ?thesis
  proof (cases ev)
    case (Accept i)
    with True obtain apt where "apt \<in> set (fst s)" "aid apt = i" "status apt = Pending"
      using offered_Accept by blast
    with d Accept True show ?thesis
      by (simp add: doctorClick_def updateAppointmentStatus_legal)
  next
    case (Decline i)
    with True obtain apt where "apt \<in> set (fst s)" "aid apt = i" "status apt = Pending"
      using offered_Decline by blast
    with d Decline True show ?thesis
      by (simp add: doctorClick_def updateAppointmentStatus_legal)
  next
    case (Start i)
    with True obtain apt where "apt \<in> set (fst s)" "aid apt = i" "status apt = Confirmed"
      using offered_Start by blast
    with d Start True show ?thesis
      by (simp add: doctorClick_def updateAppointmentStatus_legal)
  next
    case (CompleteAppointment i)
    with True obtain apt where a: "apt \<in> set (fst s)" "aid apt = i"
      "selectedAppointment (snd s) = Some i" "status apt = Confirmed \<or> status apt = InProgress"
      using offered_CompleteAppointment by blast
    with inv have "status apt = InProgress"
      using selected_not_confirmed [of s apt] by auto
    with d a CompleteAppointment True show ?thesis
      by (simp add: doctorClick_def handlePrescriptionSubmit_legal)
  qed (simp_all add: doctorClick_def list_all2_conv_all_nth legalChange_refl)
qed

lemma legalChange_cases:
  assumes "legalChange a a'"
  shows "a' = a
    \<or> (\<exists>st. a' = a\<lparr>status := st\<rparr> \<and> followsEdge (status a) st \<and> st \<noteq> Completed)
    \<or> (status a = InProgress
        \<and> (\<exists>p. a' = a\<lparr>status := Completed, prescription := Some p\<rparr> \<and> trim (medicine p) \<noteq> []))"
proof -
  from assms consider
      (same) "a' = a"
    | (edge) "a' = a\<lparr>status := status a'\<rparr>" "followsEdge (status a) (status a')"
        "status a' \<noteq> Completed"
    | (completion) "status a = InProgress"
        "case prescription a' of None \<Rightarrow> False
         | Some p \<Rightarrow> a' = a\<lparr>status := Completed, prescription := Some p\<rparr>
                     \<and> trim (medicine p) \<noteq> []"
    unfolding legalChange_def by blast
  then show ?thesis
  proof cases
    case same
    then show ?thesis by blast
  next
    case edge
    then show ?thesis by blast
  next
    case completion
    then obtain p where "a' = a\<lparr>status := Completed, prescription := Some p\<rparr>"
      "trim (medicine p) \<noteq> []"
      by (auto split: option.splits)
    with completion(1) show ?thesis by blast
  qed
qed

lemma legalChange_aid: "legalChange a a' \<Longrightarrow> aid a' = aid a"
  by (drule legalChange_cases) auto

lemma legalChange_ids:
  "list_all2 legalChange xs ys \<Longrightarrow> map aid ys = map aid xs"
  by (induction rule: list_all2_induct) (simp_all add: legalChange_aid)


lemma legalChange_completed:
  "legalChange a a' \<Longrightarrow> status a \<noteq> Completed \<or> prescription a \<noteq> None
     \<Longrightarrow> status a' \<noteq> Completed \<or> prescription a' \<noteq> None"
  by (drule legalChange_cases) auto

lemma followsEdge_from_past:
  "followsEdge st st' \<Longrightarrow> st \<in> set [InProgress, Completed, Cancelled] \<Longrightarrow> st' = Completed"
  by (cases st; cases st') simp_all

lemma legalChange_past:
  "legalChange a a' \<Longrightarrow> status a \<in> set [InProgress, Completed, Cancelled]
     \<Longrightarrow> status a' \<in> set [InProgress, Completed, Cancelled]"
  by (drule legalChange_cases) (auto dest: followsEdge_from_past)

lemma completedHavePrescription_step:
  "list_all2 legalChange xs ys \<Longrightarrow> completedHavePrescription xs \<Longrightarrow> completedHavePrescription ys"
  unfolding completedHavePrescription_def
  by (induction rule: list_all2_induct) (auto dest: legalChange_completed)

lemma selection_kept:
  assumes "list_all2 legalChange xs ys" "selectionPastConfirmed (xs, ui)"
    "selectedAppointment ui' = selectedAppointment ui \<or> selectedAppointment ui' = None"
  shows "selectionPastConfirmed (ys, ui')"
  using assms unfolding selectionPastConfirmed_def
proof (induction rule: list_all2_induct)
  case Nil
  then show ?case by simp
next
  case (Cons x xs y ys)
  from Cons.hyps(1) have id: "aid y = aid x" by (rule legalChange_aid)
  from Cons.prems have "selectedAppointment ui \<noteq> Some (aid x)
      \<or> status x \<in> set [InProgress, Completed, Cancelled]"
    by simp
  then have "selectedAppointment ui' \<noteq> Some (aid y)
      \<or> status y \<in> set [InProgress, Completed, Cancelled]"
    using Cons.prems(2) id legalChange_past [OF Cons.hyps(1)] by auto
  with Cons show ?case by simp
qed

lemma updateAppointmentStatus_snd:
  "selectedAppointment (snd (updateAppointmentStatus s i st)) = selectedAppointment (snd s)"
  by (simp add: updateAppointmentStatus_def split: option.splits)

lemma handlePrescriptionSubmit_snd:
  "selectedAppointment (snd (handlePrescriptionSubmit s i)) = selectedAppointment (snd s)
   \<or> selectedAppointment (snd (handlePrescriptionSubmit s i)) = None"
  by (simp add: handlePrescriptionSubmit_def split: option.splits)

lemma doctorClick_selection:
  assumes d: "distinct (map aid (fst s))" and inv: "selectionPastConfirmed s"
  shows "selectionPastConfirmed (doctorClick me s ev)"
proof (cases "offered me s ev")
  case False
  with inv show ?thesis by (simp add: doctorClick_def)
next
  case True
  have legal: "list_all2 legalChange (fst s) (fst (doctorClick me s ev))"
    using d inv by (rule doctorClick_legal)
  show ?thesis
  proof (cases ev)
    case (AddPrescription i)
    with True obtain apt where a: "apt \<in> set (fst s)" "aid apt = i" "status apt = InProgress"
      using offered_AddPrescription by blast
    have "status b = InProgress" if "b \<in> set (fst s)" "aid b = i" for b
      using unique_by_id [OF d that(1) a(1)] that a by auto
    then show ?thesis
      using AddPrescription True
      by (auto simp: doctorClick_def selectionPastConfirmed_def list_all_iff)
  next
    case (Accept i)
    have "selectedAppointment (snd (doctorClick me s ev)) = selectedAppointment (snd s)"
      using Accept by (simp add: doctorClick_def updateAppointmentStatus_snd)
    with selection_kept [OF legal, of "snd s" "snd (doctorClick me s ev)"] inv
    show ?thesis by simp
  next
    case (Decline i)
    have "selectedAppointment (snd (doctorClick me s ev)) = selectedAppointment (snd s)"
      using Decline by (simp add: doctorClick_def updateAppointmentStatus_snd)
    with selection_kept [OF legal, of "snd s" "snd (doctorClick me s ev)"] inv
    show ?thesis by simp
  next
    case (Start i)
    have "selectedAppointment (snd (doctorClick me s ev)) = selectedAppointment (snd s)"
      using Start by (simp add: doctorClick_def updateAppointmentStatus_snd)
    with selection_kept [OF legal, of "snd s" "snd (doctorClick me s ev)"] inv
    show ?thesis by simp
  next
    case (TypePrescription i f v)
    with inv show ?thesis
      by (simp add: doctorClick_def selectionPastConfirmed_def)
  next
    case (CompleteAppointment i)
    have "selectedAppointment (snd (doctorClick me s ev)) = selectedAppointment (snd s)
        \<or> selectedAppointment (snd (doctorClick me s ev)) = None"
      using CompleteAppointment handlePrescriptionSubmit_snd [of s i]
      by (simp add: doctorClick_def)
    with selection_kept [OF legal, of "snd s" "snd (doctorClick me s ev)"] inv
    show ?thesis by simp
  next
    case (CancelPrescription i)
    with True show ?thesis
      by (simp add: doctorClick_def selectionPastConfirmed_def list_all_iff)
  qed
qed

lemma doctorClick_distinct:
  assumes "distinct (map aid (fst s))" "selectionPastConfirmed s"
  shows "distinct (map aid (fst (doctorClick me s ev)))"
  using legalChange_ids [OF doctorClick_legal [OF assms]] assms(1) by simp

lemma doctorRun_snoc: "doctorRun me s (evs @ [ev]) = doctorClick me (doctorRun me s evs) ev"
  by (simp add: doctorRun_def)

lemma doctorRun_invariant:
  assumes "distinct (map aid (fst s))" "selectionPastConfirmed s"
  shows "distinct (map aid (fst (doctorRun me s evs))) \<and> selectionPastConfirmed (doctorRun me s evs)"
proof (induction evs rule: rev_induct)
  case Nil
  with assms show ?case by (simp add: doctorRun_def)
next
  case (snoc ev evs)
  then show ?case
    by (simp add: doctorRun_snoc doctorClick_distinct doctorClick_selection)
qed

lemma no_selection: "selectedAppointment ui = None \<Longrightarrow> selectionPastConfirmed (store, ui)"
  by (simp add: selectionPastConfirmed_def list_all_iff)

lemma doctorRun_completedHavePrescription:
  assumes "distinct (map aid (fst s))" "selectionPastConfirmed s" "completedHavePrescription (fst s)"
  shows "completedHavePrescription (fst (doctorRun me s evs))"
proof (induction evs rule: rev_induct)
  case Nil
  with assms show ?case by (simp add: doctorRun_def)
next
  case (snoc ev evs)
  from doctorRun_invariant [OF assms(1,2), of me evs]
  have "list_all2 legalChange (fst (doctorRun me s evs)) (fst (doctorClick me (doctorRun me s evs) ev))"
    by (simp add: doctorClick_legal)
  with snoc show ?case
    by (simp add: doctorRun_snoc completedHavePrescription_step)
qed


lemma legalChange_prescriptionStep: "legalChange a a' \<Longrightarrow> prescriptionStep a a'"
  by (drule legalChange_cases) (auto simp: prescriptionStep_def)

lemma doctorRun_step_legal:
  assumes "distinct (map aid store)" "selectedAppointment ui = None"
  shows "list_all2 legalChange (fst (doctorRun me (store, ui) evs))
           (fst (doctorClick me (doctorRun me (store, ui) evs) ev))"
proof -
  have "selectionPastConfirmed (store, ui)"
    using assms(2) by (rule no_selection)
  with assms(1) doctorRun_invariant [of "(store, ui)" me evs] show ?thesis
    by (simp add: doctorClick_legal)
qed


text \<open>The definitions that the concrete instances of the doctor workflow unfold.\<close>

lemmas doctor_defs = doctorRun_def doctorClick_def initialDashboard_def emptyPrescription_def
  updateAppointmentStatus_def handlePrescriptionSubmit_def updateDoc_def docExists_def
  pendingAppointments_def activeAppointments_def doctorAppointments_def trim_def isSpace_def
  sampleAppointment_def statusStep_def amoxicillin_def



lemma updateDoc_docExists:
  "docExists store i \<Longrightarrow>
     updateDoc store i change = Some (map (\<lambda>apt. if aid apt = i then change apt else apt) store)"
  by (simp add: updateDoc_def)

text \<open>
  C3 (as amended). \<^verbatim>\<open>handlePrescriptionSubmit\<close> checks no status. With a blank
  medicine (empty, or white space only) it sets the message
  \<^verbatim>\<open>Please enter medicine name\<close> and writes nothing; otherwise, on an existing
  document, it writes the status completed and the prescription in one document write.
  Its button is rendered only in the form that \<^verbatim>\<open>Add Prescription\<close> opens, and
  that one only on an in-progress appointment: in a session that starts with no
  appointment selected, over a store with unique ids, an action changes the prescription of
  a record, or takes it into completed, only by taking it from in-progress to completed
  with a prescription whose medicine is not blank; and when every completed record of the
  initial store has a prescription, so has every completed record of every reached state.
\<close>

theorem prescription_written_on_completion:
  assumes "distinct (map aid store)" and "selectedAppointment ui = None"
    and "completedHavePrescription store"
  shows "(trim (medicine (prescriptionData (snd s))) \<noteq> []
          \<or> handlePrescriptionSubmit s i
              = (fst s, (snd s)\<lparr>error := ''Please enter medicine name''\<rparr>))
         \<and> (trim (medicine (prescriptionData (snd s))) = [] \<or> \<not> docExists (fst s) i
            \<or> fst (handlePrescriptionSubmit s i)
                = map (\<lambda>apt. if aid apt = i
                              then apt\<lparr>status := Completed,
                                       prescription := Some (prescriptionData (snd s))\<rparr>
                              else apt) (fst s))
         \<and> list_all2 prescriptionStep (fst (doctorRun me (store, ui) evs))
              (fst (doctorClick me (doctorRun me (store, ui) evs) ev))
         \<and> completedHavePrescription (fst (doctorRun me (store, ui) evs))"
proof -
  have blank: "trim (medicine (prescriptionData (snd s))) \<noteq> []
          \<or> handlePrescriptionSubmit s i
              = (fst s, (snd s)\<lparr>error := ''Please enter medicine name''\<rparr>)"
    by (simp add: handlePrescriptionSubmit_def)
  have wr: "trim (medicine (prescriptionData (snd s))) = [] \<or> \<not> docExists (fst s) i
            \<or> fst (handlePrescriptionSubmit s i)
                = map (\<lambda>apt. if aid apt = i
                              then apt\<lparr>status := Completed,
                                       prescription := Some (prescriptionData (snd s))\<rparr>
                              else apt) (fst s)"
    by (auto simp: handlePrescriptionSubmit_def updateDoc_docExists)
  have step: "list_all2 prescriptionStep (fst (doctorRun me (store, ui) evs))
              (fst (doctorClick me (doctorRun me (store, ui) evs) ev))"
    using doctorRun_step_legal [OF assms(1,2)]
    by (rule list_all2_mono) (rule legalChange_prescriptionStep)
  have "selectionPastConfirmed (store, ui)"
    using assms(2) by (rule no_selection)
  with assms(1,3) have inv: "completedHavePrescription (fst (doctorRun me (store, ui) evs))"
    by (simp add: doctorRun_completedHavePrescription)
  from blank wr step inv show ?thesis by blast
qed

text \<open>
  An instance: on the in-progress sample appointment the blank form is refused, so is a
  medicine of a no-break space and a tab, and the filled form is written to it; the run
  accept, start, add prescription, type the medicine, complete, ends with the record
  completed and carrying the prescription.
\<close>

theorem prescription_written_on_completion_witness:
  "distinct (map aid [sampleAppointment])
   \<and> selectedAppointment initialDashboard = None
   \<and> completedHavePrescription [sampleAppointment]
   \<and> handlePrescriptionSubmit ([sampleAppointment\<lparr>status := InProgress\<rparr>], initialDashboard) ''a1''
       = ([sampleAppointment\<lparr>status := InProgress\<rparr>],
          initialDashboard\<lparr>error := ''Please enter medicine name''\<rparr>)
   \<and> handlePrescriptionSubmit ([sampleAppointment\<lparr>status := InProgress\<rparr>],
        initialDashboard\<lparr>prescriptionData :=
          emptyPrescription\<lparr>medicine := [CHR 0xA0, CHR 0x09]\<rparr>\<rparr>) ''a1''
       = ([sampleAppointment\<lparr>status := InProgress\<rparr>],
          initialDashboard\<lparr>prescriptionData :=
            emptyPrescription\<lparr>medicine := [CHR 0xA0, CHR 0x09]\<rparr>,
            error := ''Please enter medicine name''\<rparr>)
   \<and> docExists [sampleAppointment\<lparr>status := InProgress\<rparr>] ''a1''
   \<and> fst (handlePrescriptionSubmit ([sampleAppointment\<lparr>status := InProgress\<rparr>],
        initialDashboard\<lparr>prescriptionData := amoxicillin\<rparr>) ''a1'')
       = [sampleAppointment\<lparr>status := Completed, prescription := Some amoxicillin\<rparr>]
   \<and> fst (doctorRun ''d1'' ([sampleAppointment], initialDashboard)
        [Accept ''a1'', Start ''a1'', AddPrescription ''a1'',
         TypePrescription ''a1'' Medicine ''Amoxicillin'', CompleteAppointment ''a1''])
       = [sampleAppointment\<lparr>status := Completed,
            prescription := Some (emptyPrescription\<lparr>medicine := ''Amoxicillin''\<rparr>)\<rparr>]
   \<and> completedHavePrescription (fst (doctorRun ''d1'' ([sampleAppointment], initialDashboard)
        [Accept ''a1'', Start ''a1'', AddPrescription ''a1'',
         TypePrescription ''a1'' Medicine ''Amoxicillin'', CompleteAppointment ''a1'']))
   \<and> list_all2 prescriptionStep
        (fst (doctorRun ''d1'' ([sampleAppointment], initialDashboard)
           [Accept ''a1'', Start ''a1'', AddPrescription ''a1'',
            TypePrescription ''a1'' Medicine ''Amoxicillin'']))
        (fst (doctorClick ''d1'' (doctorRun ''d1'' ([sampleAppointment], initialDashboard)
           [Accept ''a1'', Start ''a1'', AddPrescription ''a1'',
            TypePrescription ''a1'' Medicine ''Amoxicillin'']) (CompleteAppointment ''a1'')))"
  using prescription_written_on_completion [of "[sampleAppointment]" initialDashboard
      "([sampleAppointment\<lparr>status := InProgress\<rparr>], initialDashboard)" "''a1''" "''d1''"
      "[Accept ''a1'', Start ''a1'', AddPrescription ''a1'',
        TypePrescription ''a1'' Medicine ''Amoxicillin'']" "CompleteAppointment ''a1''"]
    prescription_written_on_completion [of "[sampleAppointment]" initialDashboard
      "([sampleAppointment\<lparr>status := InProgress\<rparr>],
        initialDashboard\<lparr>prescriptionData := amoxicillin\<rparr>)" "''a1''" "''d1''"
      "[]" "CompleteAppointment ''a1''"]
    prescription_written_on_completion [of "[sampleAppointment]" initialDashboard
      "([sampleAppointment\<lparr>status := InProgress\<rparr>],
        initialDashboard\<lparr>prescriptionData :=
          emptyPrescription\<lparr>medicine := [CHR 0xA0, CHR 0x09]\<rparr>\<rparr>)" "''a1''" "''d1''"
      "[]" "CompleteAppointment ''a1''"]
  by (simp add: doctor_defs completedHavePrescription_def prescriptionStep_def)

text \<open>The handler itself, called on a pending appointment, completes it.\<close>

theorem completion_from_pending_counterexample:
  "status sampleAppointment = Pending
   \<and> handlePrescriptionSubmit
       ([sampleAppointment], initialDashboard\<lparr>prescriptionData := amoxicillin\<rparr>) ''a1''
     = ([sampleAppointment\<lparr>status := Completed, prescription := Some amoxicillin\<rparr>],
        initialDashboard\<lparr>success := ''Prescription added and appointment completed!''\<rparr>)"
  by (simp add: doctor_defs)

lemma find_absent:
  "aid apt \<notin> aid ` set xs \<Longrightarrow> find (\<lambda>a. aid a = aid apt) (filter P xs) = None"
  by (induction xs) auto

lemma find_filter_unique:
  assumes "distinct (map aid xs)" "apt \<in> set xs"
  shows "find (\<lambda>a. aid a = aid apt) (filter P xs) = (if P apt then Some apt else None)"
  using assms
proof (induction xs)
  case Nil
  then show ?case by simp
next
  case (Cons x xs)
  show ?case
  proof (cases "x = apt")
    case True
    with Cons.prems have "aid apt \<notin> aid ` set xs" by auto
    with True show ?thesis by (simp add: find_absent)
  next
    case False
    with Cons.prems have "apt \<in> set xs" "aid x \<noteq> aid apt" by auto
    with Cons show ?thesis by simp
  qed
qed

lemma viewPrescription_unique:
  assumes "distinct (map aid xs)" "apt \<in> set xs"
  shows "viewPrescription profile xs (aid apt) =
     (if role profile = Patient \<and> patientId apt = uid profile \<and> status apt = Completed
      then prescription apt else None)"
proof -
  have "pastAppointments (patientAppointments (uid profile) xs)
      = filter (\<lambda>a. patientId a = uid profile \<and> status a \<in> set [Completed, Cancelled]) xs"
    by (simp add: pastAppointments_def patientAppointments_def conj_commute)
  then show ?thesis
    using find_filter_unique [OF assms, of "\<lambda>a. patientId a = uid profile \<and> status a \<in> set [Completed, Cancelled]"]
    by (cases "role profile") (auto simp: viewPrescription_def prescriptionShown_def)
qed

text \<open>
  C5 (as amended). In every state that dashboard actions of a doctor reach (from a store
  with unique ids whose completed records have prescriptions, with no appointment
  selected), the prescription of an appointment is shown to a user if and only if the user
  is signed in as a patient, is the patient of the appointment, the status is completed and
  the prescription is present; so the patient of an appointment is shown a prescription
  exactly when its status is completed. To every other user, a doctor included, nothing is
  shown, and that is no error.
\<close>

theorem prescription_visibility:
  assumes "distinct (map aid store)" and "selectedAppointment ui = None"
    and "completedHavePrescription store"
    and "apt \<in> set (fst (doctorRun me (store, ui) evs))"
  shows "(viewPrescription profile (fst (doctorRun me (store, ui) evs)) (aid apt) = Some p
            \<longleftrightarrow> role profile = Patient \<and> patientId apt = uid profile
                \<and> status apt = Completed \<and> prescription apt = Some p)
         \<and> (role profile \<noteq> Patient \<or> patientId apt \<noteq> uid profile
            \<or> (viewPrescription profile (fst (doctorRun me (store, ui) evs)) (aid apt) \<noteq> None
                  \<longleftrightarrow> status apt = Completed))"
proof -
  have sel: "selectionPastConfirmed (store, ui)"
    using assms(2) by (rule no_selection)
  with assms(1) have d: "distinct (map aid (fst (doctorRun me (store, ui) evs)))"
    using doctorRun_invariant [of "(store, ui)" me evs] by simp
  from assms(1,3) sel have "completedHavePrescription (fst (doctorRun me (store, ui) evs))"
    by (simp add: doctorRun_completedHavePrescription)
  with assms(4) have "status apt \<noteq> Completed \<or> prescription apt \<noteq> None"
    by (auto simp: completedHavePrescription_def list_all_iff)
  then show ?thesis
    using viewPrescription_unique [OF d assms(4), of profile] by auto
qed

text \<open>
  An instance: after the run that completes the sample appointment its patient is shown
  the prescription; after accept and start alone, nothing.
\<close>

theorem prescription_visibility_witness:
  "distinct (map aid [sampleAppointment])
   \<and> selectedAppointment initialDashboard = None
   \<and> completedHavePrescription [sampleAppointment]
   \<and> fst (doctorRun ''d1'' ([sampleAppointment], initialDashboard)
        [Accept ''a1'', Start ''a1'', AddPrescription ''a1'',
         TypePrescription ''a1'' Medicine ''Amoxicillin'', CompleteAppointment ''a1''])
       = [sampleAppointment\<lparr>status := Completed,
            prescription := Some (emptyPrescription\<lparr>medicine := ''Amoxicillin''\<rparr>)\<rparr>]
   \<and> viewPrescription samplePatient
        (fst (doctorRun ''d1'' ([sampleAppointment], initialDashboard)
          [Accept ''a1'', Start ''a1'', AddPrescription ''a1'',
           TypePrescription ''a1'' Medicine ''Amoxicillin'', CompleteAppointment ''a1''])) ''a1''
       = Some (emptyPrescription\<lparr>medicine := ''Amoxicillin''\<rparr>)
   \<and> viewPrescription samplePatient
        (fst (doctorRun ''d1'' ([sampleAppointment], initialDashboard)
          [Accept ''a1'', Start ''a1''])) ''a1'' = None"
  using prescription_visibility [of "[sampleAppointment]" initialDashboard
      "sampleAppointment\<lparr>status := Completed,
            prescription := Some (emptyPrescription\<lparr>medicine := ''Amoxicillin''\<rparr>)\<rparr>" "''d1''"
      "[Accept ''a1'', Start ''a1'', AddPrescription ''a1'',
         TypePrescription ''a1'' Medicine ''Amoxicillin'', CompleteAppointment ''a1'']"
      samplePatient "emptyPrescription\<lparr>medicine := ''Amoxicillin''\<rparr>"]
  by (simp add: doctor_defs completedHavePrescription_def viewPrescription_def
      samplePatient_def pastAppointments_def patientAppointments_def prescriptionShown_def)

text \<open>The doctor of a completed appointment with a prescription is shown none.\<close>

theorem doctor_view_counterexample:
  "uid sampleDoctor = doctorId completedSample
   \<and> status completedSample = Completed
   \<and> prescription completedSample = Some amoxicillin
   \<and> viewPrescription sampleDoctor [completedSample] (aid completedSample) = None"
  by (simp add: viewPrescription_def sampleDoctor_def completedSample_def sampleAppointment_def)

subsection \<open>The feedback form\<close>

text \<open>
  The entry that a click on a star or a key in the comment box leaves in the form: the
  last two keys of the object literal restore the previous rating and comment.
\<close>

lemma updateFeedback_entry:
  "updateFeedback prev i inp i
     = Some (case prev i of None \<Rightarrow> \<lparr>rating = 0, comment = []\<rparr> | Some old \<Rightarrow> old)"
  by (cases inp) (auto simp: updateFeedback_def split: option.splits)

lemma updateFeedback_other: "j \<noteq> i \<Longrightarrow> updateFeedback prev i inp j = prev j"
  by (simp add: updateFeedback_def Let_def)

lemma updateFeedback_zero:
  assumes "\<And>j. ratingZero (prev j)"
  shows "ratingZero (updateFeedback prev i inp j)"
proof (cases "j = i")
  case True
  with assms [of i] show ?thesis
    by (simp add: updateFeedback_entry ratingZero_def split: option.splits)
next
  case False
  with assms [of j] show ?thesis
    by (simp add: updateFeedback_other)
qed

lemma handleFeedbackSubmit_zero:
  "ratingZero (snd s i) \<Longrightarrow> handleFeedbackSubmit s i = s"
  by (simp add: handleFeedbackSubmit_def ratingZero_def split: option.splits)

lemma patientClick_zero:
  assumes "\<And>j. ratingZero (snd s j)"
  shows "fst (patientClick me s ev) = fst s \<and> ratingZero (snd (patientClick me s ev) j)"
proof (cases "patientOffered me s ev")
  case False
  with assms show ?thesis by (simp add: patientClick_def)
next
  case True
  show ?thesis
  proof (cases ev)
    case (ClickStar i star)
    with True assms show ?thesis
      by (simp add: patientClick_def updateFeedback_zero)
  next
    case (TypeComment i c)
    with True assms show ?thesis
      by (simp add: patientClick_def updateFeedback_zero)
  next
    case (SubmitFeedback i)
    with True assms show ?thesis
      by (simp add: patientClick_def handleFeedbackSubmit_zero)
  qed
qed

lemma patientRun_snoc: "patientRun me s (evs @ [ev]) = patientClick me (patientRun me s evs) ev"
  by (simp add: patientRun_def)

lemma patientRun_zero:
  assumes "\<And>j. ratingZero (snd s j)"
  shows "fst (patientRun me s evs) = fst s \<and> (\<forall>j. ratingZero (snd (patientRun me s evs) j))"
proof (induction evs rule: rev_induct)
  case Nil
  with assms show ?case by (simp add: patientRun_def)
next
  case (snoc ev evs)
  then have z: "\<And>j. ratingZero (snd (patientRun me s evs) j)" by simp
  from patientClick_zero [of "patientRun me s evs" me ev, OF z] snoc show ?case
    by (simp add: patientRun_snoc)
qed

text \<open>The definitions that the concrete instances of the feedback form unfold.\<close>

lemmas patient_defs = patientRun_def patientClick_def handleFeedbackSubmit_def updateDoc_def
  docExists_def feedbackFormShown_def pastAppointments_def patientAppointments_def
  completedSample_def sampleAppointment_def amoxicillin_def updateFeedback_def

text \<open>
  C4. On the completed sample appointment, which has no feedback, its patient clicks the
  fifth star and types a comment: both controls are rendered, and the entry left in the
  form has rating 0 and an empty comment. The submit button is then disabled, and the
  handler, called all the same, returns at once. After two submits the appointment
  still has no feedback: the first call has not stored its input.
\<close>

theorem first_submit_stores_nothing:
  "patientId completedSample = ''p1'' \<and> status completedSample = Completed
   \<and> feedback completedSample = None
   \<and> patientOffered ''p1'' ([completedSample], Map.empty) (ClickStar ''a1'' 5)
   \<and> patientOffered ''p1''
        (patientRun ''p1'' ([completedSample], Map.empty) [ClickStar ''a1'' 5])
        (TypeComment ''a1'' ''good'')
   \<and> patientRun ''p1'' ([completedSample], Map.empty)
        [ClickStar ''a1'' 5, TypeComment ''a1'' ''good'']
      = ([completedSample], [''a1'' \<mapsto> \<lparr>rating = 0, comment = []\<rparr>])
   \<and> \<not> patientOffered ''p1'' ([completedSample], [''a1'' \<mapsto> \<lparr>rating = 0, comment = []\<rparr>])
          (SubmitFeedback ''a1'')
   \<and> handleFeedbackSubmit ([completedSample], [''a1'' \<mapsto> \<lparr>rating = 0, comment = []\<rparr>]) ''a1''
      = ([completedSample], [''a1'' \<mapsto> \<lparr>rating = 0, comment = []\<rparr>])
   \<and> map feedback (fst (patientRun ''p1'' ([completedSample], Map.empty)
        [ClickStar ''a1'' 5, TypeComment ''a1'' ''good'', SubmitFeedback ''a1'',
         SubmitFeedback ''a1''])) = [None]"
  by (simp add: patient_defs)

text \<open>
  C7. In a session of the patient dashboard, which starts with an empty form, no
  sequence of clicks on stars, keys in the comment box and submits stores anything, and
  every entry of the form keeps the rating 0: no rating from 1 to 5 is accepted. On the
  completed sample appointment the fourth star is rendered, and after the click on it and
  the submit the store is as before.
\<close>

theorem stars_never_accepted:
  "fst (patientRun me (store, Map.empty) evs) = store
   \<and> ratingZero (snd (patientRun me (store, Map.empty) evs) i)
   \<and> patientOffered ''p1'' ([completedSample], Map.empty) (ClickStar ''a1'' 4)
   \<and> patientRun ''p1'' ([completedSample], Map.empty) [ClickStar ''a1'' 4, SubmitFeedback ''a1'']
      = ([completedSample], [''a1'' \<mapsto> \<lparr>rating = 0, comment = []\<rparr>])"
proof -
  have "\<And>j. ratingZero (snd (store, Map.empty :: string \<rightharpoonup> Feedback) j)"
    by (simp add: ratingZero_def)
  from patientRun_zero [of "(store, Map.empty)" me evs, OF this]
  have run: "fst (patientRun me (store, Map.empty) evs) = store"
    "ratingZero (snd (patientRun me (store, Map.empty) evs) i)"
    by simp_all
  have inst: "patientOffered ''p1'' ([completedSample], Map.empty) (ClickStar ''a1'' 4)
   \<and> patientRun ''p1'' ([completedSample], Map.empty) [ClickStar ''a1'' 4, SubmitFeedback ''a1'']
      = ([completedSample], [''a1'' \<mapsto> \<lparr>rating = 0, comment = []\<rparr>])"
    by (simp add: patient_defs)
  from run inst show ?thesis by blast
qed

text \<open>
  C9. The upcoming card counts the records with status pending, confirmed or in-progress,
  and the prescriptions card the records with a prescription. The card labelled
  \<^verbatim>\<open>Completed Visits\<close> is the length of the past list: it counts the cancelled
  records along with the completed ones, and shows 1 for a single cancelled appointment,
  of which none is completed.
\<close>

theorem patient_cards:
  "upcomingCard apps = count_list (map status apps) Pending
       + count_list (map status apps) Confirmed + count_list (map status apps) InProgress
   \<and> prescriptionsCard apps = length (filter (\<lambda>apt. prescription apt \<noteq> None) apps)
   \<and> completedVisitsCard apps = count_list (map status apps) Completed
       + count_list (map status apps) Cancelled
   \<and> completedVisitsCard [sampleAppointment\<lparr>status := Cancelled\<rparr>] = 1
   \<and> count_list (map status [sampleAppointment\<lparr>status := Cancelled\<rparr>]) Completed = 0"
proof -
  have up: "upcomingCard apps = count_list (map status apps) Pending
       + count_list (map status apps) Confirmed + count_list (map status apps) InProgress"
    unfolding upcomingCard_def upcomingAppointments_def by (induction apps) auto
  have past: "completedVisitsCard apps = count_list (map status apps) Completed
       + count_list (map status apps) Cancelled"
    unfolding completedVisitsCard_def pastAppointments_def by (induction apps) auto
  have inst: "completedVisitsCard [sampleAppointment\<lparr>status := Cancelled\<rparr>] = 1"
    by (simp add: completedVisitsCard_def pastAppointments_def)
  from up past inst show ?thesis
    by (simp add: prescriptionsCard_def)
qed

subsection \<open>Booking\<close>

text \<open>The definitions that the concrete instances of the booking page unfold.\<close>

lemmas booking_defs = handleSubmit_def todayAppointments_def samplePatient_def sampleDoctor_def
  sampleForm_def sampleAppointment_def twoBooked_def fourBooked_def trim_def isSpace_def

text \<open>
  C1. The cap counts the records of the patient that are dated today, whatever date is
  requested. On 2025-06-01 a patient with two appointments on 2025-06-02 books a third
  one for 2025-06-02: no message is set and the store then holds three records of that
  patient and date. On 2025-06-02 the same two records, with none on 2025-06-03, make the
  booking for 2025-06-03 fail with the message of the daily limit.
\<close>

theorem third_booking_same_date:
  "length (filter (\<lambda>apt. patientId apt = uid samplePatient \<and> date apt = formDate sampleForm)
             twoBooked) = 2
   \<and> bookError (snd (handleSubmit ''2025-06-01'' 7 ''a3'' (Some samplePatient) [sampleDoctor]
        (twoBooked, sampleForm))) = []
   \<and> length (filter (\<lambda>apt. patientId apt = uid samplePatient \<and> date apt = formDate sampleForm)
        (fst (handleSubmit ''2025-06-01'' 7 ''a3'' (Some samplePatient) [sampleDoctor]
           (twoBooked, sampleForm)))) = 3
   \<and> length (filter (\<lambda>apt. patientId apt = uid samplePatient \<and> date apt = ''2025-06-03'')
        twoBooked) = 0
   \<and> handleSubmit ''2025-06-02'' 7 ''a3'' (Some samplePatient) [sampleDoctor]
        (twoBooked, sampleForm\<lparr>formDate := ''2025-06-03''\<rparr>)
      = (twoBooked, sampleForm\<lparr>formDate := ''2025-06-03'',
           bookError := ''You can only book a maximum of 2 appointments per day.''\<rparr>)"
  by (simp add: booking_defs)




subsection \<open>Registration\<close>

lemma endsWith_iff: "endsWith s suf \<longleftrightarrow> (\<exists>pre. s = pre @ suf)"
proof
  assume "endsWith s suf"
  then have "s = take (length s - length suf) s @ suf"
    by (metis append_take_drop_id endsWith_def)
  then show "\<exists>pre. s = pre @ suf" ..
next
  assume "\<exists>pre. s = pre @ suf"
  then show "endsWith s suf"
    by (auto simp: endsWith_def)
qed

lemma register_domainOnly:
  "domainOnly st \<Longrightarrow> register st e password fName lName r now created = Inr st'
     \<Longrightarrow> domainOnly st'"
  by (auto simp: register_def domainOnly_def setDocUser_def Let_def list_all_iff
      split: if_splits sum.splits)

lemma registerStep_domainOnly: "domainOnly st \<Longrightarrow> domainOnly (registerStep st c)"
  by (auto simp: registerStep_def split: sum.splits dest: register_domainOnly)

lemma registerAll_domainOnly: "domainOnly st \<Longrightarrow> domainOnly (registerAll st calls)"
  unfolding registerAll_def
  by (induction calls arbitrary: st) (simp_all add: registerStep_domainOnly)

text \<open>
  C10. \<^verbatim>\<open>validateEmail\<close> holds exactly of the addresses that end with
  \<^verbatim>\<open>@meditrack.local\<close>. \<^verbatim>\<open>register\<close> with any other address throws the
  error of the domain, before the authentication service is called and before any
  document is written; a registration that returns has such an address; and after any
  sequence of registrations from the empty system every account and every profile has
  such an address.
\<close>

theorem register_requires_domain:
  "(validateEmail e \<longleftrightarrow> (\<exists>pre. e = pre @ ''@meditrack.local''))
   \<and> (\<not> validateEmail e \<longrightarrow>
        register st e password fName lName r now created
          = Inl (Error ''Email must end with @meditrack.local''))
   \<and> (register st e password fName lName r now created = Inr st' \<longrightarrow> validateEmail e)
   \<and> domainOnly (registerAll emptyAuth calls)"
proof -
  have suffix: "validateEmail e \<longleftrightarrow> (\<exists>pre. e = pre @ ''@meditrack.local'')"
    unfolding validateEmail_def by (rule endsWith_iff)
  have rejected: "\<not> validateEmail e \<longrightarrow>
        register st e password fName lName r now created
          = Inl (Error ''Email must end with @meditrack.local'')"
    by (simp add: register_def)
  have accepted: "register st e password fName lName r now created = Inr st' \<longrightarrow> validateEmail e"
    by (auto simp: register_def split: if_splits)
  have "domainOnly emptyAuth"
    by (simp add: domainOnly_def emptyAuth_def)
  then have "domainOnly (registerAll emptyAuth calls)"
    by (rule registerAll_domainOnly)
  with suffix rejected accepted show ?thesis by blast
qed

text \<open>
  Instances: an address of another domain is refused, an address of the clinic's domain
  is registered with account and profile.
\<close>

theorem register_requires_domain_witness:
  "\<not> validateEmail ''patient@example.com''
   \<and> register emptyAuth ''patient@example.com'' ''password123'' ''Bob'' ''Ray'' Patient 0
        (Inr ''u1'') = Inl (Error ''Email must end with @meditrack.local'')
   \<and> validateEmail ''patient@meditrack.local''
   \<and> register emptyAuth ''patient@meditrack.local'' ''password123'' ''Bob'' ''Ray'' Patient 0
        (Inr ''u1'')
      = Inr \<lparr>accounts = [(''u1'', ''patient@meditrack.local'')],
             users = [\<lparr>uid = ''u1'', email = ''patient@meditrack.local'', role = Patient,
                       firstName = ''Bob'', lastName = ''Ray'', registeredAt = 0\<rparr>],
             currentProfile = Some \<lparr>uid = ''u1'', email = ''patient@meditrack.local'',
                       role = Patient, firstName = ''Bob'', lastName = ''Ray'',
                       registeredAt = 0\<rparr>\<rparr>"
  using register_requires_domain [of "''patient@example.com''" emptyAuth "''password123''"
      "''Bob''" "''Ray''" Patient 0 "Inr ''u1''" emptyAuth "[]"]
    register_requires_domain [of "''patient@meditrack.local''" emptyAuth "''password123''"
      "''Bob''" "''Ray''" Patient 0 "Inr ''u1''"
      "\<lparr>accounts = [(''u1'', ''patient@meditrack.local'')],
             users = [\<lparr>uid = ''u1'', email = ''patient@meditrack.local'', role = Patient,
                       firstName = ''Bob'', lastName = ''Ray'', registeredAt = 0\<rparr>],
             currentProfile = Some \<lparr>uid = ''u1'', email = ''patient@meditrack.local'',
                       role = Patient, firstName = ''Bob'', lastName = ''Ray'',
                       registeredAt = 0\<rparr>\<rparr>" "[]"]
  by (simp add: register_def validateEmail_def endsWith_def emptyAuth_def setDocUser_def Let_def)

end
